theory Spec2Isabelle
  imports Main "HOL-Library.Sublist"
begin

section \<open>The process state\<close>

text \<open>
  The only process state that \<^verbatim>\<open>server.py\<close> touches is the table of environment
  variables, \<^verbatim>\<open>os.environ\<close>, a dictionary from names to values. Names and values are
  kept as the bytes the operating system holds; Python shows each of them as a string
  that determines these bytes and is determined by them. The record is
  extensible: its \<open>more\<close> part stands for every other piece of state of the Python
  process, so that a statement over \<open>'a process_scheme\<close> also says what the code does
  with the state it does not mention.
\<close>

record process =
  environ :: "string \<rightharpoonup> string"

text \<open>
  Python's \<^verbatim>\<open>d.get(key, default)\<close>: the value stored under the key when the key is
  present (whatever that value is, the empty string included), the default otherwise.
  Unlike \<^verbatim>\<open>d[key]\<close> it has no \<^verbatim>\<open>KeyError\<close> branch.
\<close>

definition dict_get :: "('k \<rightharpoonup> 'v) \<Rightarrow> 'k \<Rightarrow> 'v \<Rightarrow> 'v" where
  "dict_get d k dflt = (case d k of None \<Rightarrow> dflt | Some v \<Rightarrow> v)"

section \<open>The view functions of server.py\<close>

text \<open>
  A view returns either a string or a dictionary (here with string keys and values, kept
  as the association list of the literal). A Python function may also raise, so the
  result of a view is a sum, and it runs in the process state, so it takes the state and
  returns it. Among the exceptions, the framework's HTTP exceptions carry the status
  they are answered with.
\<close>

datatype rv = Str string | Dict "(string \<times> string) list"

datatype exn = HTTPException nat | UnicodeEncodeError | Exception string

type_synonym 'a view = "'a process_scheme \<Rightarrow> (exn + rv) \<times> 'a process_scheme"

text \<open>
  \<^verbatim>\<open>def healthz(): return {"status":"ok"}\<close>
\<close>

definition healthz :: "'a view" where
  "healthz s = (Inr (Dict [(''status'', ''ok'')]), s)"

text \<open>
  \<^verbatim>\<open>def version(): return os.environ.get("APP_VERSION", "unknown")\<close>
\<close>

definition version :: "'a view" where
  "version s = (Inr (Str (dict_get (environ s) ''APP_VERSION'' ''unknown'')), s)"

section \<open>The application object and its routes\<close>

text \<open>
  \<^verbatim>\<open>app = Flask(__name__)\<close> followed by two \<^verbatim>\<open>@app.route(path)\<close> decorators.
  The framework (Flask, on Werkzeug) is a dependency of the repository, not part of its
  source; what follows models the part of it that the three lines rely on.

  A rule is either a plain path, as both rules of \<^verbatim>\<open>server.py\<close> are, or a prefix
  followed by one \<^verbatim>\<open><path:name>\<close> converter, as the rule
  \<^verbatim>\<open>/static/<path:filename>\<close> that the constructor registers by itself. The
  converter takes what follows the prefix when that is not empty, does not begin with
  a slash and has no line feed after its first character.
\<close>

datatype pattern = Exact string | PathUnder string

record url_rule =
  rule :: pattern
  methods :: "string list"
  endpoint :: string

record 'a flask =
  url_map :: "url_rule list"
  view_functions :: "string \<rightharpoonup> 'a view"

fun rule_matches :: "pattern \<Rightarrow> string \<Rightarrow> bool" where
  "rule_matches (Exact r) p = (p = r)"
| "rule_matches (PathUnder pre) p =
     (prefix pre p \<and>
      (case drop (length pre) p of
         [] \<Rightarrow> False
       | c # cs \<Rightarrow> c \<noteq> CHR ''/'' \<and> CHR 0x0A \<notin> set cs))"

text \<open>
  A route registered without a \<^verbatim>\<open>methods\<close> argument gets the framework's default
  method set: \<^verbatim>\<open>GET\<close>, to which the framework adds \<^verbatim>\<open>OPTIONS\<close> (answered by the
  framework itself) and \<^verbatim>\<open>HEAD\<close> (answered by the view, the body dropped).
  The endpoint of a route is the name of the decorated function.
\<close>

definition default_methods :: "string list" where
  "default_methods = [''GET'', ''OPTIONS'', ''HEAD'']"

text \<open>
  The view of the static rule serves a file of the directory \<^verbatim>\<open>static\<close> beside
  \<^verbatim>\<open>server.py\<close>. The repository has no such directory, so whatever name is asked
  for, the file is missing and the view raises the framework's \<^verbatim>\<open>NotFound\<close>.
\<close>

definition send_static_file :: "'a view" where
  "send_static_file s = (Inl (HTTPException 404), s)"

definition Flask :: "'a flask" where
  "Flask =
     \<lparr>url_map = [\<lparr>rule = PathUnder ''/static/'', methods = default_methods,
                   endpoint = ''static''\<rparr>],
      view_functions = [''static'' \<mapsto> send_static_file]\<rparr>"

definition route :: "string \<Rightarrow> string \<Rightarrow> 'a view \<Rightarrow> 'a flask \<Rightarrow> 'a flask" where
  "route r name f a =
     a\<lparr>url_map := url_map a @ [\<lparr>rule = Exact r, methods = default_methods, endpoint = name\<rparr>],
       view_functions := (view_functions a)(name \<mapsto> f)\<rparr>"

definition app :: "'a flask" where
  "app = route ''/version'' ''version'' version
           (route ''/healthz'' ''healthz'' healthz Flask)"

section \<open>Requests, responses and dispatch\<close>

text \<open>
  A request is the method and the path as they arrive. The method is an HTTP token,
  made of ASCII characters; the framework upper-cases it before it compares it with
  anything.
\<close>

record request =
  http_method :: string
  path :: string

record response =
  status :: nat
  mimetype :: string
  body :: rv

definition upper_char :: "char \<Rightarrow> char" where
  "upper_char c =
     (case map_of (zip ''abcdefghijklmnopqrstuvwxyz'' ''ABCDEFGHIJKLMNOPQRSTUVWXYZ'') c of
        None \<Rightarrow> c
      | Some d \<Rightarrow> d)"

definition upper :: "string \<Rightarrow> string" where
  "upper m = map upper_char m"

text \<open>
  Before matching, the leading slashes of a non-empty path are replaced by one slash.
\<close>

definition path_part :: "string \<Rightarrow> string" where
  "path_part p = (if p = [] then [] else CHR ''/'' # dropWhile (\<lambda>c. c = CHR ''/'') p)"

text \<open>
  When nothing matches, the path is tried once more with its slashes merged: from left
  to right every two adjacent slashes become one (so that three become two).
\<close>

fun merge_slashes :: "string \<Rightarrow> string" where
  "merge_slashes (a # b # cs) =
     (if a = CHR ''/'' \<and> b = CHR ''/'' then CHR ''/'' # merge_slashes cs
      else a # merge_slashes (b # cs))"
| "merge_slashes cs = cs"

text \<open>
  Looking for a rule that matches both path and method. A rule whose path matches but
  whose methods do not contain the request's method is remembered through its methods.
\<close>

fun find_rule ::
  "url_rule list \<Rightarrow> string \<Rightarrow> string \<Rightarrow> string set \<Rightarrow> string option \<times> string set" where
  "find_rule [] m p allowed = (None, allowed)"
| "find_rule (r # rs) m p allowed =
     (if rule_matches (rule r) p
      then (if m \<in> set (methods r) then (Some (endpoint r), allowed)
            else find_rule rs m p (allowed \<union> set (methods r)))
      else find_rule rs m p allowed)"

text \<open>
  Matching a request: a rule found at once is the match; a rule found only after the
  slashes are merged makes the framework redirect to the merged path; otherwise the
  outcome is "method not allowed" if some rule matched the path and "not found" if none
  did.
\<close>

datatype routing =
  Matched string | NotFound | MethodNotAllowed "string set" | RequestRedirect string

definition match_url :: "url_rule list \<Rightarrow> string \<Rightarrow> string \<Rightarrow> routing" where
  "match_url rules meth p =
     (case find_rule rules (upper meth) (path_part p) {} of
        (Some ep, allowed) \<Rightarrow> Matched ep
      | (None, allowed) \<Rightarrow>
          (case find_rule rules (upper meth) (merge_slashes (path_part p)) allowed of
             (Some ep, allowed') \<Rightarrow> RequestRedirect (merge_slashes (path_part p))
           | (None, allowed') \<Rightarrow>
               if allowed' = {} then NotFound else MethodNotAllowed allowed'))"

text \<open>
  The framework turns the value a view returns into a response, with status 200. A
  dictionary becomes a JSON response. A string becomes a text response whose body is
  its UTF-8 encoding. Python reads the environment as UTF-8 and keeps every byte that
  is not part of well-formed UTF-8 as a lone surrogate, so the string of an environment
  value can be encoded exactly when the bytes of the value are well-formed UTF-8 (the
  bytes are then the body), and encoding it raises otherwise.
\<close>

definition cont :: "nat \<Rightarrow> bool" where
  "cont b = (128 \<le> b \<and> b \<le> 191)"

fun utf8_bytes :: "nat list \<Rightarrow> bool" where
  "utf8_bytes [] = True"
| "utf8_bytes (a # bs) =
     (if a < 128 then utf8_bytes bs
      else if 194 \<le> a \<and> a \<le> 223 then
        (case bs of b # r \<Rightarrow> cont b \<and> utf8_bytes r | _ \<Rightarrow> False)
      else if a = 224 then
        (case bs of b # c # r \<Rightarrow> 160 \<le> b \<and> b \<le> 191 \<and> cont c \<and> utf8_bytes r | _ \<Rightarrow> False)
      else if (225 \<le> a \<and> a \<le> 236) \<or> a = 238 \<or> a = 239 then
        (case bs of b # c # r \<Rightarrow> cont b \<and> cont c \<and> utf8_bytes r | _ \<Rightarrow> False)
      else if a = 237 then
        (case bs of b # c # r \<Rightarrow> 128 \<le> b \<and> b \<le> 159 \<and> cont c \<and> utf8_bytes r | _ \<Rightarrow> False)
      else if a = 240 then
        (case bs of b # c # d # r \<Rightarrow>
           144 \<le> b \<and> b \<le> 191 \<and> cont c \<and> cont d \<and> utf8_bytes r | _ \<Rightarrow> False)
      else if 241 \<le> a \<and> a \<le> 243 then
        (case bs of b # c # d # r \<Rightarrow> cont b \<and> cont c \<and> cont d \<and> utf8_bytes r | _ \<Rightarrow> False)
      else if a = 244 then
        (case bs of b # c # d # r \<Rightarrow>
           128 \<le> b \<and> b \<le> 143 \<and> cont c \<and> cont d \<and> utf8_bytes r | _ \<Rightarrow> False)
      else False)"

definition utf8 :: "string \<Rightarrow> bool" where
  "utf8 t = utf8_bytes (map of_char t)"

fun make_response :: "rv \<Rightarrow> exn + response" where
  "make_response (Str t) =
     (if utf8 t then Inr \<lparr>status = 200, mimetype = ''text/html'', body = Str t\<rparr>
      else Inl UnicodeEncodeError)"
| "make_response (Dict d) =
     Inr \<lparr>status = 200, mimetype = ''application/json'', body = Dict d\<rparr>"

text \<open>
  The responses the framework makes by itself (error pages, redirects and the answer to
  \<^verbatim>\<open>OPTIONS\<close>) are kept by their status; their bodies are not modelled and stand
  as empty.
\<close>

definition empty_response :: "nat \<Rightarrow> response" where
  "empty_response code = \<lparr>status = code, mimetype = ''text/html'', body = Str []\<rparr>"

text \<open>
  From the outcome of a view to the response. An HTTP exception raised by the view is
  answered with its status; any other exception, raised by the view or while its value
  is turned into a response, with status 500. The body of the answer to a request
  whose method arrived as \<^verbatim>\<open>HEAD\<close> is not sent.
\<close>

definition finalize_request :: "string \<Rightarrow> exn + rv \<Rightarrow> response" where
  "finalize_request meth outcome =
     (case outcome of
        Inl (HTTPException code) \<Rightarrow> empty_response code
      | Inl e \<Rightarrow> empty_response 500
      | Inr v \<Rightarrow>
          (case make_response v of
             Inl e \<Rightarrow> empty_response 500
           | Inr r \<Rightarrow> if meth = ''HEAD'' then r\<lparr>body := Str []\<rparr> else r))"

text \<open>
  Handling one request. Routing failures become the framework's 404, 405 and 308
  responses. An \<^verbatim>\<open>OPTIONS\<close> request on a matched rule is answered by the framework
  without calling the view. Otherwise the view registered for the endpoint is called.
\<close>

definition full_dispatch_request ::
  "'a flask \<Rightarrow> request \<Rightarrow> 'a process_scheme \<Rightarrow> response \<times> 'a process_scheme" where
  "full_dispatch_request a rq s =
     (case match_url (url_map a) (http_method rq) (path rq) of
        NotFound \<Rightarrow> (empty_response 404, s)
      | MethodNotAllowed allowed \<Rightarrow> (empty_response 405, s)
      | RequestRedirect location \<Rightarrow> (empty_response 308, s)
      | Matched ep \<Rightarrow>
          if upper (http_method rq) = ''OPTIONS'' then (empty_response 200, s)
          else (case view_functions a ep of
                  None \<Rightarrow> (empty_response 500, s)
                | Some f \<Rightarrow>
                    (case f s of (outcome, s') \<Rightarrow>
                       (finalize_request (http_method rq) outcome, s'))))"

section \<open>A running process\<close>

text \<open>
  What happens to a process between its start and a given moment is a list of events:
  requests, which the application answers, and changes of the environment table made
  from outside the two views (the application has no code for them).
\<close>

datatype event = Request request | Setenv string string | Unsetenv string

fun step :: "event \<Rightarrow> 'a process_scheme \<Rightarrow> response list \<times> 'a process_scheme" where
  "step (Request rq) s = (case full_dispatch_request app rq s of (r, s') \<Rightarrow> ([r], s'))"
| "step (Setenv k v) s = ([], s\<lparr>environ := (environ s)(k \<mapsto> v)\<rparr>)"
| "step (Unsetenv k) s = ([], s\<lparr>environ := (environ s)(k := None)\<rparr>)"

fun serve :: "event list \<Rightarrow> 'a process_scheme \<Rightarrow> response list \<times> 'a process_scheme" where
  "serve [] s = ([], s)"
| "serve (e # es) s =
     (case step e s of (out, s') \<Rightarrow>
        (case serve es s' of (outs, s'') \<Rightarrow> (out @ outs, s'')))"

text \<open>
  The environment table after a list of events, as the events that change it leave it;
  a request is no such event.
\<close>

fun env_after :: "event list \<Rightarrow> (string \<rightharpoonup> string) \<Rightarrow> (string \<rightharpoonup> string)" where
  "env_after [] e = e"
| "env_after (Request rq # es) e = env_after es e"
| "env_after (Setenv k v # es) e = env_after es (e(k \<mapsto> v))"
| "env_after (Unsetenv k # es) e = env_after es (e(k := None))"

section \<open>Shared facts\<close>

lemma url_map_app:
  "url_map app =
     [\<lparr>rule = PathUnder ''/static/'', methods = default_methods, endpoint = ''static''\<rparr>,
      \<lparr>rule = Exact ''/healthz'', methods = default_methods, endpoint = ''healthz''\<rparr>,
      \<lparr>rule = Exact ''/version'', methods = default_methods, endpoint = ''version''\<rparr>]"
  by (simp add: app_def route_def Flask_def)

lemma view_functions_app:
  "view_functions app =
     [''static'' \<mapsto> send_static_file, ''healthz'' \<mapsto> healthz, ''version'' \<mapsto> version]"
  by (simp add: app_def route_def Flask_def)

lemma views_app:
  "view_functions app ep = Some f \<Longrightarrow> f = send_static_file \<or> f = healthz \<or> f = version"
  by (auto simp: view_functions_app split: if_splits)

lemma view_keeps_state: "view_functions app ep = Some f \<Longrightarrow> snd (f s) = s"
  by (auto dest!: views_app simp: send_static_file_def healthz_def version_def)

lemma dispatch_keeps_state:
  fixes s :: "'a process_scheme"
  shows "snd (full_dispatch_request app rq s) = s"
proof (cases "match_url (url_map (app :: 'a flask)) (http_method rq) (path rq)")
  case (Matched ep)
  show ?thesis
  proof (cases "view_functions (app :: 'a flask) ep")
    case None
    with Matched show ?thesis by (simp add: full_dispatch_request_def)
  next
    case (Some f)
    have "snd (f s) = s" by (rule view_keeps_state [OF Some])
    with Matched Some show ?thesis
      by (simp add: full_dispatch_request_def case_prod_beta)
  qed
qed (simp_all add: full_dispatch_request_def)

lemma dispatch_fresh:
  fixes s :: "'a process_scheme"
  shows "fst (full_dispatch_request app rq s) =
         fst (full_dispatch_request app rq \<lparr>environ = environ s\<rparr>)"
proof -
  have m: "match_url (url_map (app :: 'a flask)) (http_method rq) (path rq) =
           match_url (url_map (app :: unit flask)) (http_method rq) (path rq)"
    by (simp add: url_map_app)
  show ?thesis
  proof (cases "match_url (url_map (app :: unit flask)) (http_method rq) (path rq)")
    case (Matched ep)
    with m show ?thesis
      by (simp add: full_dispatch_request_def view_functions_app send_static_file_def
          healthz_def version_def)
  next
    case NotFound
    with m show ?thesis by (simp add: full_dispatch_request_def)
  next
    case (MethodNotAllowed allowed)
    with m show ?thesis by (simp add: full_dispatch_request_def)
  next
    case (RequestRedirect location)
    with m show ?thesis by (simp add: full_dispatch_request_def)
  qed
qed

lemma dispatch_env_only:
  "environ s = environ t \<Longrightarrow>
   fst (full_dispatch_request app rq s) = fst (full_dispatch_request app rq t)"
  using dispatch_fresh [of rq s] dispatch_fresh [of rq t] by simp

lemma upper_GET: "upper ''GET'' = ''GET''"
  by (simp add: upper_def upper_char_def)

lemma default_methods_nonempty: "default_methods \<noteq> []"
  by (simp add: default_methods_def)

lemma match_known_path:
  assumes "p = ''/healthz'' \<or> p = ''/version''"
  shows "match_url (url_map app) m p =
     (if upper m \<in> set default_methods
      then Matched (if p = ''/healthz'' then ''healthz'' else ''version'')
      else MethodNotAllowed (set default_methods))"
  using assms
proof
  assume "p = ''/healthz''"
  then show ?thesis
    by (simp add: match_url_def url_map_app path_part_def default_methods_nonempty)
next
  assume "p = ''/version''"
  then show ?thesis
    by (simp add: match_url_def url_map_app path_part_def default_methods_nonempty)
qed

lemma get_healthz:
  "full_dispatch_request app \<lparr>http_method = ''GET'', path = ''/healthz''\<rparr> s =
     (\<lparr>status = 200, mimetype = ''application/json'', body = Dict [(''status'', ''ok'')]\<rparr>, s)"
  by (simp add: full_dispatch_request_def match_known_path upper_GET view_functions_app
      healthz_def default_methods_def finalize_request_def)

lemma get_version:
  "full_dispatch_request app \<lparr>http_method = ''GET'', path = ''/version''\<rparr> s =
     (if utf8 (dict_get (environ s) ''APP_VERSION'' ''unknown'')
      then \<lparr>status = 200, mimetype = ''text/html'',
             body = Str (dict_get (environ s) ''APP_VERSION'' ''unknown'')\<rparr>
      else empty_response 500, s)"
  by (simp add: full_dispatch_request_def match_known_path upper_GET view_functions_app
      version_def default_methods_def finalize_request_def)

lemma utf8_unknown: "utf8 ''unknown''"
  by (simp add: utf8_def)

lemma utf8_Nil: "utf8 []"
  by (simp add: utf8_def)









lemma utf8_version: "utf8 ''1.2.3''"
  by (simp add: utf8_def)

lemma not_utf8_FF: "\<not> utf8 [CHR 0xFF]"
  by (simp add: utf8_def)

lemma step_request: "step (Request rq) s = ([fst (full_dispatch_request app rq s)], s)"
  using dispatch_keeps_state [of rq s]
  by (cases "full_dispatch_request app rq s") simp

lemma serve_Cons:
  "serve (e # es) s =
     (fst (step e s) @ fst (serve es (snd (step e s))), snd (serve es (snd (step e s))))"
  by (simp split: prod.splits)


lemma environ_step: "environ (snd (step e s)) = env_after [e] (environ s)"
  by (cases e) (simp_all add: step_request del: step.simps(1))

lemma env_after_Cons: "env_after (e # es) env = env_after es (env_after [e] env)"
  by (cases e) simp_all


lemma environ_serve: "environ (snd (serve es s)) = env_after es (environ s)"
proof (induction es arbitrary: s)
  case Nil
  show ?case by simp
next
  case (Cons e es)
  have "environ (snd (serve (e # es) s)) = environ (snd (serve es (snd (step e s))))"
    by (simp add: serve_Cons del: serve.simps(2))
  also have "\<dots> = env_after es (environ (snd (step e s)))"
    by (rule Cons.IH)
  also have "\<dots> = env_after (e # es) (environ s)"
    by (simp only: environ_step env_after_Cons [of e es])
  finally show ?case .
qed

lemma serve_requests_state: "snd (serve (map Request rqs) s) = s"
  by (induction rqs) (simp_all add: serve_Cons step_request del: serve.simps(2) step.simps(1))


section \<open>Properties\<close>

subsection \<open>The version route\<close>

text \<open>
  C1, as the code has it. \<^verbatim>\<open>GET /version\<close> is answered with status 200; the body is
  the literal \<^verbatim>\<open>unknown\<close> when \<^verbatim>\<open>APP_VERSION\<close> is unset, and the empty string
  when \<^verbatim>\<open>APP_VERSION\<close> is set to the empty string: the default of the dictionary
  lookup stands in for a missing key only.
\<close>

theorem version_unset_or_empty:
  "(environ s ''APP_VERSION'' = None \<longrightarrow>
      fst (full_dispatch_request app \<lparr>http_method = ''GET'', path = ''/version''\<rparr> s) =
        \<lparr>status = 200, mimetype = ''text/html'', body = Str ''unknown''\<rparr>) \<and>
   (environ s ''APP_VERSION'' = Some [] \<longrightarrow>
      fst (full_dispatch_request app \<lparr>http_method = ''GET'', path = ''/version''\<rparr> s) =
        \<lparr>status = 200, mimetype = ''text/html'', body = Str []\<rparr>)"
  by (simp add: get_version dict_get_def utf8_unknown utf8_Nil)

theorem version_unset_or_empty_witness:
  "Map.empty ''APP_VERSION'' = (None :: string option) \<and>
   fst (full_dispatch_request app \<lparr>http_method = ''GET'', path = ''/version''\<rparr>
          \<lparr>environ = Map.empty\<rparr>) =
     \<lparr>status = 200, mimetype = ''text/html'', body = Str ''unknown''\<rparr> \<and>
   [''APP_VERSION'' \<mapsto> []] ''APP_VERSION'' = Some [] \<and>
   fst (full_dispatch_request app \<lparr>http_method = ''GET'', path = ''/version''\<rparr>
          \<lparr>environ = [''APP_VERSION'' \<mapsto> []]\<rparr>) =
     \<lparr>status = 200, mimetype = ''text/html'', body = Str []\<rparr>"
  using version_unset_or_empty [of "\<lparr>environ = Map.empty\<rparr>"]
    version_unset_or_empty [of "\<lparr>environ = [''APP_VERSION'' \<mapsto> []]\<rparr>"]
  by simp

text \<open>
  C1, as stated, fails where \<^verbatim>\<open>APP_VERSION\<close> is set to the empty string: the body of
  the answer to \<^verbatim>\<open>GET /version\<close> is then not \<^verbatim>\<open>unknown\<close>.
\<close>

theorem version_empty_counterexample:
  "[''APP_VERSION'' \<mapsto> []] ''APP_VERSION'' = Some [] \<and>
   body (fst (full_dispatch_request app \<lparr>http_method = ''GET'', path = ''/version''\<rparr>
                \<lparr>environ = [''APP_VERSION'' \<mapsto> []]\<rparr>)) \<noteq> Str ''unknown''"
  by (simp add: get_version dict_get_def utf8_Nil)

text \<open>
  C3, as the framework has it. With \<^verbatim>\<open>APP_VERSION\<close> set to a non-empty value \<open>v\<close>
  that is well-formed UTF-8, \<^verbatim>\<open>GET /version\<close> is answered with status 200 and a body
  that is \<open>v\<close> itself.
\<close>

theorem version_returns_value:
  "v \<noteq> [] \<Longrightarrow> utf8 v \<Longrightarrow> environ s ''APP_VERSION'' = Some v \<Longrightarrow>
   fst (full_dispatch_request app \<lparr>http_method = ''GET'', path = ''/version''\<rparr> s) =
     \<lparr>status = 200, mimetype = ''text/html'', body = Str v\<rparr>"
  by (simp add: get_version dict_get_def)

theorem version_returns_value_witness:
  "''1.2.3'' \<noteq> [] \<and> utf8 ''1.2.3'' \<and>
   [''APP_VERSION'' \<mapsto> ''1.2.3''] ''APP_VERSION'' = Some ''1.2.3'' \<and>
   fst (full_dispatch_request app \<lparr>http_method = ''GET'', path = ''/version''\<rparr>
          \<lparr>environ = [''APP_VERSION'' \<mapsto> ''1.2.3'']\<rparr>) =
     \<lparr>status = 200, mimetype = ''text/html'', body = Str ''1.2.3''\<rparr>"
  using version_returns_value [of "''1.2.3''" "\<lparr>environ = [''APP_VERSION'' \<mapsto> ''1.2.3'']\<rparr>"]
  by (simp add: utf8_version)

text \<open>
  C3, as stated, fails for a non-empty value that is not well-formed UTF-8: with
  \<^verbatim>\<open>APP_VERSION\<close> set to the single byte \<open>0xFF\<close>, the view returns the value, turning
  it into a response raises, and \<^verbatim>\<open>GET /version\<close> is answered with status 500.
\<close>

theorem version_undecodable_counterexample:
  "[CHR 0xFF] \<noteq> [] \<and>
   [''APP_VERSION'' \<mapsto> [CHR 0xFF]] ''APP_VERSION'' = Some [CHR 0xFF] \<and>
   status (fst (full_dispatch_request app \<lparr>http_method = ''GET'', path = ''/version''\<rparr>
                  \<lparr>environ = [''APP_VERSION'' \<mapsto> [CHR 0xFF]]\<rparr>)) = 500"
  by (simp add: get_version dict_get_def not_utf8_FF empty_response_def)



subsection \<open>The health route\<close>

text \<open>
  C2. A \<^verbatim>\<open>GET /healthz\<close> request is answered with status 200 and a JSON body that,
  read as a mapping, is the one-key mapping from \<^verbatim>\<open>status\<close> to \<^verbatim>\<open>ok\<close>, whatever
  the environment table (and the rest of the process state) holds.
\<close>

theorem healthz_always_ok:
  "\<exists>d. fst (full_dispatch_request app \<lparr>http_method = ''GET'', path = ''/healthz''\<rparr> s) =
         \<lparr>status = 200, mimetype = ''application/json'', body = Dict d\<rparr>
       \<and> map_of d = [''status'' \<mapsto> ''ok'']"
  by (simp add: get_healthz)

subsection \<open>Other paths and other methods\<close>




text \<open>
  C6, as the routing has it. A request to \<^verbatim>\<open>/healthz\<close> or \<^verbatim>\<open>/version\<close> whose
  method, upper-cased, is other than \<^verbatim>\<open>GET\<close>, \<^verbatim>\<open>HEAD\<close> and \<^verbatim>\<open>OPTIONS\<close> is
  answered with status 405.
\<close>

theorem other_methods_rejected:
  "upper m \<noteq> ''GET'' \<Longrightarrow> upper m \<noteq> ''HEAD'' \<Longrightarrow> upper m \<noteq> ''OPTIONS'' \<Longrightarrow>
   p = ''/healthz'' \<or> p = ''/version'' \<Longrightarrow>
   status (fst (full_dispatch_request app \<lparr>http_method = m, path = p\<rparr> s)) = 405"
  by (simp add: full_dispatch_request_def match_known_path default_methods_def
      empty_response_def)

theorem other_methods_rejected_witness:
  "upper ''POST'' \<noteq> ''GET'' \<and> upper ''POST'' \<noteq> ''HEAD'' \<and> upper ''POST'' \<noteq> ''OPTIONS'' \<and>
   status (fst (full_dispatch_request app \<lparr>http_method = ''POST'', path = ''/version''\<rparr>
                  \<lparr>environ = Map.empty\<rparr>)) = 405"
  using other_methods_rejected [of "''POST''" "''/version''" "\<lparr>environ = Map.empty\<rparr>"]
  by (simp add: upper_def upper_char_def)

text \<open>
  C6, as stated, fails for \<^verbatim>\<open>HEAD\<close>, a method other than \<^verbatim>\<open>GET\<close> that the default
  method set contains: \<^verbatim>\<open>HEAD /healthz\<close> is answered with status 200.
\<close>

theorem head_is_answered_counterexample:
  "''HEAD'' \<noteq> ''GET'' \<and>
   status (fst (full_dispatch_request app \<lparr>http_method = ''HEAD'', path = ''/healthz''\<rparr>
                  \<lparr>environ = Map.empty\<rparr>)) = 200"
  by (simp add: full_dispatch_request_def match_known_path view_functions_app
      default_methods_def upper_def upper_char_def finalize_request_def healthz_def)

subsection \<open>State, independence, totality, determinism\<close>

text \<open>
  C7. Neither view changes the process state, and neither does the handling of any
  request or of any list of requests: the environment table and every other part of
  the state are afterwards what they were before.
\<close>

theorem handlers_keep_state:
  "snd (healthz s) = s \<and> snd (version s) = s \<and>
   snd (full_dispatch_request app rq s) = s \<and>
   snd (serve (map Request rqs) s) = s"
  by (simp add: healthz_def version_def dispatch_keeps_state serve_requests_state)

text \<open>
  C8. The answer to a request depends on the request and on the environment table at
  that moment only: two processes with any two histories and any two states that agree
  on the environment table give the same answer to the same request.
\<close>

theorem requests_independent:
  "environ (snd (serve h1 s1)) = environ (snd (serve h2 s2)) \<Longrightarrow>
   fst (full_dispatch_request app rq (snd (serve h1 s1))) =
   fst (full_dispatch_request app rq (snd (serve h2 s2)))"
  by (rule dispatch_env_only)

theorem requests_independent_witness:
  "environ (snd (serve [Request \<lparr>http_method = ''GET'', path = ''/healthz''\<rparr>,
                        Setenv ''APP_VERSION'' ''1.2.3'']
                  \<lparr>environ = Map.empty\<rparr>)) =
   environ (snd (serve [Setenv ''APP_VERSION'' ''1.2.3'',
                        Request \<lparr>http_method = ''POST'', path = ''/version''\<rparr>]
                  \<lparr>environ = [''APP_VERSION'' \<mapsto> ''0.9'']\<rparr>)) \<and>
   fst (full_dispatch_request app \<lparr>http_method = ''GET'', path = ''/version''\<rparr>
          (snd (serve [Request \<lparr>http_method = ''GET'', path = ''/healthz''\<rparr>,
                       Setenv ''APP_VERSION'' ''1.2.3'']
                  \<lparr>environ = Map.empty\<rparr>))) =
   fst (full_dispatch_request app \<lparr>http_method = ''GET'', path = ''/version''\<rparr>
          (snd (serve [Setenv ''APP_VERSION'' ''1.2.3'',
                       Request \<lparr>http_method = ''POST'', path = ''/version''\<rparr>]
                  \<lparr>environ = [''APP_VERSION'' \<mapsto> ''0.9'']\<rparr>)))"
proof -
  have h: "environ (snd (serve [Request \<lparr>http_method = ''GET'', path = ''/healthz''\<rparr>,
                                Setenv ''APP_VERSION'' ''1.2.3'']
                          \<lparr>environ = Map.empty\<rparr>)) =
           environ (snd (serve [Setenv ''APP_VERSION'' ''1.2.3'',
                                Request \<lparr>http_method = ''POST'', path = ''/version''\<rparr>]
                          \<lparr>environ = [''APP_VERSION'' \<mapsto> ''0.9'']\<rparr>))"
    by (simp add: environ_serve del: serve.simps)
  show ?thesis
    by (rule conjI [OF h requests_independent [OF h]])
qed

text \<open>
  C9. Both views return a value and raise nothing, in every process state, hence for
  every environment table: \<^verbatim>\<open>APP_VERSION\<close> absent, empty or any string.
\<close>

theorem handlers_total:
  "(\<exists>v. fst (healthz s) = Inr v) \<and> (\<exists>v. fst (version s) = Inr v)"
  by (simp add: healthz_def version_def)

text \<open>
  C10. Two calls of the \<^verbatim>\<open>healthz\<close> view return the same value in any two process
  states, and two calls of the \<^verbatim>\<open>version\<close> view return the same value in any two
  process states with the same environment table.
\<close>

theorem handlers_deterministic:
  "fst (healthz s1) = fst (healthz s2) \<and>
   (environ s1 = environ s2 \<longrightarrow> fst (version s1) = fst (version s2))"
  by (simp add: healthz_def version_def)

theorem handlers_deterministic_witness:
  "environ \<lparr>environ = [''APP_VERSION'' \<mapsto> ''1.2.3''], \<dots> = (0::nat)\<rparr> =
   environ \<lparr>environ = [''APP_VERSION'' \<mapsto> ''1.2.3''], \<dots> = True\<rparr> \<and>
   fst (version \<lparr>environ = [''APP_VERSION'' \<mapsto> ''1.2.3''], \<dots> = (0::nat)\<rparr>) =
   fst (version \<lparr>environ = [''APP_VERSION'' \<mapsto> ''1.2.3''], \<dots> = True\<rparr>)"
  using handlers_deterministic
    [of "\<lparr>environ = [''APP_VERSION'' \<mapsto> ''1.2.3''], \<dots> = (0::nat)\<rparr>"
        "\<lparr>environ = [''APP_VERSION'' \<mapsto> ''1.2.3''], \<dots> = True\<rparr>"]
  by simp

end
